theory Spec2Isabelle
  imports Complex_Main "HOL-Library.Multiset" "HOL-Library.Sublist"
begin

section \<open>Python values and strings\<close>

text \<open>
  The engine (\<^verbatim>\<open>src/housing_ai.py\<close>) keeps its dataset in a pandas DataFrame whose cells
  are dynamically typed. A cell, a keyword argument or a dictionary value is a \<open>pyval\<close>:
  \<open>PNone\<close> is Python's \<^verbatim>\<open>None\<close>, \<open>PNaN\<close> the float \<^verbatim>\<open>nan\<close> that pandas stores for a
  missing cell, \<open>PFloat\<close> a finite float. Finite floats are modelled by the rational number
  they denote and float arithmetic is exact in the model; the infinities are not modelled.

  A Python \<^verbatim>\<open>str\<close> is a \<open>string\<close>. The character operations below are those of Python on
  ASCII text; a character outside ASCII has no case and is neither whitespace, a digit nor a
  word character in the model.
\<close>

datatype pyval = PNone | PNaN | PBool bool | PInt int | PFloat rat | PStr string

datatype error = KeyError string | ValueError | TypeError | ReError | IOError

text \<open>\<^verbatim>\<open>ord\<close> and \<^verbatim>\<open>chr\<close>: a character and its code.\<close>

definition ord :: "char \<Rightarrow> nat" where
  "ord c = of_char c"

definition chr :: "nat \<Rightarrow> char" where
  "chr n = char_of n"

text \<open>
  \<^verbatim>\<open>str.isspace\<close> on ASCII: tab, line feed, vertical tab, form feed, carriage return
  (9 to 13), the four separators 28 to 31, and the space (32).
\<close>

definition isspace :: "char \<Rightarrow> bool" where
  "isspace c = ((9 \<le> ord c \<and> ord c \<le> 13) \<or> (28 \<le> ord c \<and> ord c \<le> 32))"

definition isdigit :: "char \<Rightarrow> bool" where
  "isdigit c = (48 \<le> ord c \<and> ord c \<le> 57)"

definition isupper :: "char \<Rightarrow> bool" where
  "isupper c = (65 \<le> ord c \<and> ord c \<le> 90)"

definition islower :: "char \<Rightarrow> bool" where
  "islower c = (97 \<le> ord c \<and> ord c \<le> 122)"

definition isalpha :: "char \<Rightarrow> bool" where
  "isalpha c = (isupper c \<or> islower c)"

text \<open>\<^verbatim>\<open>\w\<close> of the \<^verbatim>\<open>re\<close> module: letters, digits and the underscore.\<close>

definition isword :: "char \<Rightarrow> bool" where
  "isword c = (isalpha c \<or> isdigit c \<or> c = CHR ''_'')"

definition lower_char :: "char \<Rightarrow> char" where
  "lower_char c = (if isupper c then chr (ord c + 32) else c)"

definition upper_char :: "char \<Rightarrow> char" where
  "upper_char c = (if islower c then chr (ord c - 32) else c)"

text \<open>\<^verbatim>\<open>str.lower()\<close>, \<^verbatim>\<open>str.upper()\<close> and \<^verbatim>\<open>str.strip()\<close>.\<close>

definition lower :: "string \<Rightarrow> string" where
  "lower s = map lower_char s"

definition upper :: "string \<Rightarrow> string" where
  "upper s = map upper_char s"

definition strip :: "string \<Rightarrow> string" where
  "strip s = rev (dropWhile isspace (rev (dropWhile isspace s)))"

text \<open>\<^verbatim>\<open>needle in hay\<close> on strings: \<open>needle\<close> occurs as a contiguous substring.\<close>

fun py_in :: "string \<Rightarrow> string \<Rightarrow> bool" where
  "py_in needle [] = (needle = [])"
| "py_in needle (c # cs) = (prefix needle (c # cs) \<or> py_in needle cs)"

text \<open>Truthiness, as \<^verbatim>\<open>bool(value)\<close> and \<^verbatim>\<open>if value:\<close> compute it. \<^verbatim>\<open>nan\<close> is truthy.\<close>

fun truthy :: "pyval \<Rightarrow> bool" where
  "truthy PNone = False"
| "truthy PNaN = True"
| "truthy (PBool b) = b"
| "truthy (PInt i) = (i \<noteq> 0)"
| "truthy (PFloat q) = (q \<noteq> 0)"
| "truthy (PStr s) = (s \<noteq> [])"

section \<open>Dataset loading\<close>


text \<open>
  A DataFrame is its column labels and its rows, each row with its index label and a cell
  for every column label; the cells of labels that are not columns are never read.
  \<^verbatim>\<open>pd.read_csv\<close> labels the rows 0, 1, 2, ... and filtering keeps the labels.
\<close>

type_synonym row = "string \<Rightarrow> pyval"

record frame =
  columns :: "string list"
  rows :: "(nat \<times> row) list"

text \<open>
  The functions of pandas and of the Python library that the engine calls and that the
  model does not compute are parameters: how \<^verbatim>\<open>pd.to_numeric\<close> and \<^verbatim>\<open>float\<close> read a number
  from a string (\<open>None\<close>: not a number), how \<^verbatim>\<open>str\<close> prints a float, the regular-expression
  search behind \<^verbatim>\<open>Series.str.contains(pat, case=False)\<close> (\<open>None\<close>: \<^verbatim>\<open>pat\<close> is not a regular
  expression and \<^verbatim>\<open>re.error\<close> is raised), and \<^verbatim>\<open>sort_values("score", ascending=False)\<close>
  on the rows of a frame.
\<close>

record library =
  to_numeric_str :: "string \<Rightarrow> rat option"
  float_of_str :: "string \<Rightarrow> rat option"
  float_str :: "rat \<Rightarrow> string"
  re_search_icase :: "string \<Rightarrow> (string \<Rightarrow> bool) option"
  sort_values :: "(nat \<times> row) list \<Rightarrow> (nat \<times> row) list"



text \<open>
  \<^verbatim>\<open>.fillna(0).astype(int)\<close> on one cell of the numeric column: \<^verbatim>\<open>nan\<close> becomes 0 and a float
  is truncated towards zero. No string is left in a column that \<open>to_numeric\<close> has coerced.
\<close>

definition trunc :: "rat \<Rightarrow> int" where
  "trunc q = (if 0 \<le> q then \<lfloor>q\<rfloor> else \<lceil>q\<rceil>)"






section \<open>Scoring\<close>

text \<open>\<^verbatim>\<open>str(n)\<close> of an integer, in decimal.\<close>

fun str_nat :: "nat \<Rightarrow> string" where
  "str_nat n = (if n < 10 then [chr (48 + n)] else str_nat (n div 10) @ [chr (48 + n mod 10)])"

definition str_int :: "int \<Rightarrow> string" where
  "str_int i = (if i < 0 then CHR ''-'' # str_nat (nat (- i)) else str_nat (nat i))"

text \<open>\<^verbatim>\<open>str(value)\<close>, which is also what \<^verbatim>\<open>.astype(str)\<close> does to a cell.\<close>

fun py_str :: "library \<Rightarrow> pyval \<Rightarrow> string" where
  "py_str L PNone = ''None''"
| "py_str L PNaN = ''nan''"
| "py_str L (PBool b) = (if b then ''True'' else ''False'')"
| "py_str L (PInt i) = str_int i"
| "py_str L (PFloat q) = float_str L q"
| "py_str L (PStr s) = s"

text \<open>
  \<^verbatim>\<open>float(value)\<close>: \<open>Inr None\<close> is \<^verbatim>\<open>nan\<close>; \<^verbatim>\<open>None\<close> raises \<^verbatim>\<open>TypeError\<close> and a string that is not
  a number raises \<^verbatim>\<open>ValueError\<close>.
\<close>

fun py_float :: "library \<Rightarrow> pyval \<Rightarrow> error + rat option" where
  "py_float L PNone = Inl TypeError"
| "py_float L PNaN = Inr None"
| "py_float L (PBool b) = Inr (Some (if b then 1 else 0))"
| "py_float L (PInt i) = Inr (Some (of_int i))"
| "py_float L (PFloat q) = Inr (Some q)"
| "py_float L (PStr s) = (case float_of_str L s of None \<Rightarrow> Inl ValueError | Some q \<Rightarrow> Inr (Some q))"

text \<open>
  \<^verbatim>\<open>round(x, 2)\<close>: to the nearest multiple of 1/100, a tie going to the even neighbour.
\<close>

definition round_half_even :: "rat \<Rightarrow> int" where
  "round_half_even x =
     (let f = \<lfloor>x\<rfloor>; d = x - of_int f
      in if d < 1 / 2 then f else if 1 / 2 < d then f + 1 else if even f then f else f + 1)"

definition py_round2 :: "rat \<Rightarrow> rat" where
  "py_round2 x = of_int (round_half_even (x * 100)) / 100"

text \<open>\<^verbatim>\<open>row.get(key, default)\<close> and \<^verbatim>\<open>row[key]\<close> on a row of a frame with columns \<open>cols\<close>.\<close>

definition row_get :: "string list \<Rightarrow> row \<Rightarrow> string \<Rightarrow> pyval \<Rightarrow> pyval" where
  "row_get cols r k d = (if k \<in> set cols then r k else d)"

definition row_item :: "string list \<Rightarrow> row \<Rightarrow> string \<Rightarrow> error + pyval" where
  "row_item cols r k = (if k \<in> set cols then Inr (r k) else Inl (KeyError k))"

text \<open>
  The affordability term \<^verbatim>\<open>max(0, 40 - (rent / 30))\<close>. For \<^verbatim>\<open>rent = nan\<close> the difference is
  \<^verbatim>\<open>nan\<close>, \<^verbatim>\<open>nan > 0\<close> is false and \<^verbatim>\<open>max\<close> keeps its first argument 0.
\<close>

definition affordability :: "rat option \<Rightarrow> rat" where
  "affordability rent = (case rent of None \<Rightarrow> 0 | Some q \<Rightarrow> max 0 (40 - q / 30))"

text \<open>
  The \<^verbatim>\<open>try\<close> block: \<^verbatim>\<open>row["monthly_rent"]\<close> raises \<^verbatim>\<open>KeyError\<close>, which is not caught, on a row
  without the column; the \<^verbatim>\<open>TypeError\<close> or \<^verbatim>\<open>ValueError\<close> of \<^verbatim>\<open>float\<close> is caught and adds nothing.
\<close>

definition rent_points :: "library \<Rightarrow> string list \<Rightarrow> row \<Rightarrow> error + rat" where
  "rent_points L cols r =
     (case row_item cols r ''monthly_rent'' of
        Inl e \<Rightarrow> Inl e
      | Inr v \<Rightarrow> (case py_float L v of Inl e \<Rightarrow> Inr 0 | Inr rent \<Rightarrow> Inr (affordability rent)))"

text \<open>
  \<^verbatim>\<open>value in (None, "", "None", False, np.nan)\<close>, by equality: 0 equals \<^verbatim>\<open>False\<close>, and a \<^verbatim>\<open>nan\<close>
  cell equals nothing. (After \<open>load_data\<close> the cell is a boolean or the column is absent.)
\<close>

fun utilities_sentinel :: "pyval \<Rightarrow> bool" where
  "utilities_sentinel PNone = True"
| "utilities_sentinel PNaN = False"
| "utilities_sentinel (PBool b) = (\<not> b)"
| "utilities_sentinel (PInt i) = (i = 0)"
| "utilities_sentinel (PFloat q) = (q = 0)"
| "utilities_sentinel (PStr s) = (s = '''' \<or> s = ''None'')"

text \<open>The six bonuses of \<^verbatim>\<open>_score_listing\<close>, in the source's order.\<close>

definition bonuses :: "library \<Rightarrow> string list \<Rightarrow> row \<Rightarrow> rat" where
  "bonuses L cols r =
     (if truthy (row_get cols r ''low_income_eligible'' PNone) then 15 else 0)
   + (if truthy (row_get cols r ''section8_accepted'' PNone) then 10 else 0)
   + (if truthy (row_get cols r ''hud_approved'' PNone) then 10 else 0)
   + (if truthy (row_get cols r ''nearby_transit'' PNone) then 5 else 0)
   + (if \<not> utilities_sentinel (row_get cols r ''utilities_included'' PNone) then 5 else 0)
   + (let accessibility = row_get cols r ''accessibility_features'' (PStr '''')
      in if truthy accessibility \<and> strip (py_str L accessibility) \<notin> set [''None'', '''']
         then 5 else 0)"

text \<open>\<^verbatim>\<open>HousingAI._score_listing\<close>: the affordability term, the bonuses, and the rounding.\<close>

definition score_listing :: "library \<Rightarrow> string list \<Rightarrow> row \<Rightarrow> error + rat" where
  "score_listing L cols r =
     (case rent_points L cols r of
        Inl e \<Rightarrow> Inl e
      | Inr pts \<Rightarrow> Inr (py_round2 (pts + bonuses L cols r)))"

declare str_nat.simps [simp del]

section \<open>Search\<close>

definition LANGUAGE_ALIASES :: "(string \<times> string) list" where
  "LANGUAGE_ALIASES =
     [(''english'', ''English''), (''spanish'', ''Spanish''), (''spanish/latin'', ''Spanish''),
      (''chinese'', ''Chinese''), (''mandarin'', ''Chinese''), (''cantonese'', ''Chinese''),
      (''korean'', ''Korean''), (''vietnamese'', ''Vietnamese''), (''arabic'', ''Arabic''),
      (''hindi'', ''Hindi''), (''gujarati'', ''Gujarati''), (''french'', ''French''),
      (''amharic'', ''Amharic''), (''somali'', ''Somali''),
      (''haitian creole'', ''Haitian Creole''), (''creole'', ''Haitian Creole''),
      (''russian'', ''Russian'')]"

text \<open>\<^verbatim>\<open>LANGUAGE_ALIASES.get(key, default)\<close>.\<close>

definition alias_get :: "string \<Rightarrow> string \<Rightarrow> string" where
  "alias_get k d = (case map_of LANGUAGE_ALIASES k of Some v \<Rightarrow> v | None \<Rightarrow> d)"

text \<open>
  The keyword arguments of \<^verbatim>\<open>HousingAI.search\<close>, typed as the signature annotates them;
  \<open>None\<close> is the default \<^verbatim>\<open>None\<close>.
\<close>

record search_args =
  max_rent :: "rat option"
  min_bedrooms :: int
  city :: "string option"
  state :: "string option"
  zip_code :: "string option"
  language :: "string option"
  section8 :: bool
  hud_approved :: bool
  low_income_only :: bool
  needs_transit :: bool
  pets_allowed :: bool
  accessibility :: bool
  ami_percent :: "int option"
  top_n :: int

text \<open>The defaults of the signature.\<close>

definition default_args :: search_args where
  "default_args = \<lparr>max_rent = None, min_bedrooms = 0, city = None, state = None,
     zip_code = None, language = None, section8 = False, hud_approved = False,
     low_income_only = False, needs_transit = False, pets_allowed = False,
     accessibility = False, ami_percent = None, top_n = 10\<rparr>"

text \<open>
  A cell in a numeric comparison: its number, or nothing for \<^verbatim>\<open>nan\<close>. A comparison with
  \<^verbatim>\<open>nan\<close> is false. (The compared columns are numeric: \<open>load_data\<close> coerces
  \<^verbatim>\<open>monthly_rent\<close> and \<^verbatim>\<open>bedrooms\<close>, and \<^verbatim>\<open>income_limit_percent_ami\<close> is read as numbers.)
\<close>

fun num_of :: "pyval \<Rightarrow> rat option" where
  "num_of (PInt i) = Some (of_int i)"
| "num_of (PFloat q) = Some q"
| "num_of (PBool b) = Some (if b then 1 else 0)"
| "num_of v = None"

definition cell_le :: "pyval \<Rightarrow> rat \<Rightarrow> bool" where
  "cell_le c x = (case num_of c of Some q \<Rightarrow> q \<le> x | None \<Rightarrow> False)"

definition cell_ge :: "pyval \<Rightarrow> rat \<Rightarrow> bool" where
  "cell_ge c x = (case num_of c of Some q \<Rightarrow> x \<le> q | None \<Rightarrow> False)"

text \<open>
  An element under the \<^verbatim>\<open>.str\<close> accessor: the string of a string cell, \<^verbatim>\<open>nan\<close> (\<open>None\<close>) for
  any other cell. \<^verbatim>\<open>notna\<close> is false on \<^verbatim>\<open>nan\<close> and \<^verbatim>\<open>None\<close>.
\<close>

fun str_of :: "pyval \<Rightarrow> string option" where
  "str_of (PStr s) = Some s"
| "str_of v = None"

fun notna :: "pyval \<Rightarrow> bool" where
  "notna PNaN = False"
| "notna PNone = False"
| "notna v = True"

text \<open>
  One hard filter \<^verbatim>\<open>results = results[mask]\<close>: the column the mask reads (a frame without
  it raises \<^verbatim>\<open>KeyError\<close>) and the mask as a test on a row, or the error that computing the
  mask raises before any row is looked at.
\<close>

datatype flt = Flt (needs: string) (mask: "error + (row \<Rightarrow> bool)")

definition apply_filter :: "flt \<Rightarrow> frame \<Rightarrow> error + frame" where
  "apply_filter f df =
     (if needs f \<notin> set (columns df) then Inl (KeyError (needs f))
      else case mask f of
             Inl e \<Rightarrow> Inl e
           | Inr keep \<Rightarrow> Inr (df\<lparr>rows := filter (\<lambda>x. keep (snd x)) (rows df)\<rparr>))"

text \<open>
  A filter can be applied to a frame when the frame has its column and its mask can be
  computed; it accepts a row when the mask is true on it.
\<close>

definition runnable :: "flt \<Rightarrow> frame \<Rightarrow> bool" where
  "runnable f df = (needs f \<in> set (columns df) \<and> \<not> isl (mask f))"

definition accepts :: "flt \<Rightarrow> nat \<times> row \<Rightarrow> bool" where
  "accepts f x = (case mask f of Inl e \<Rightarrow> False | Inr keep \<Rightarrow> keep (snd x))"

fun run_filters :: "flt list \<Rightarrow> frame \<Rightarrow> error + frame" where
  "run_filters [] df = Inr df"
| "run_filters (f # fs) df =
     (case apply_filter f df of Inl e \<Rightarrow> Inl e | Inr df' \<Rightarrow> run_filters fs df')"

text \<open>
  A boolean column used as the mask itself, \<^verbatim>\<open>results[results[col]]\<close>: the rows whose cell
  is \<^verbatim>\<open>True\<close>.
\<close>

definition flag_filter :: "bool \<Rightarrow> string \<Rightarrow> flt list" where
  "flag_filter on col = (if on then [Flt col (Inr (\<lambda>r. r col = PBool True))] else [])"

text \<open>
  A string argument tested by \<^verbatim>\<open>if arg:\<close> is used when it is given and not empty.
\<close>

definition str_filter :: "string option \<Rightarrow> (string \<Rightarrow> flt) \<Rightarrow> flt list" where
  "str_filter arg f = (case arg of None \<Rightarrow> [] | Some s \<Rightarrow> if s = [] then [] else [f s])"

text \<open>
  The filters that \<^verbatim>\<open>search\<close> applies for its arguments, in the order of the source: each
  \<^verbatim>\<open>if\<close> of the source contributes its filter when its test holds.
\<close>

definition filters :: "library \<Rightarrow> search_args \<Rightarrow> flt list" where
  "filters L p =
     (case max_rent p of
        None \<Rightarrow> []
      | Some R \<Rightarrow> [Flt ''monthly_rent'' (Inr (\<lambda>r. cell_le (r ''monthly_rent'') R))])
   @ (if min_bedrooms p \<noteq> 0
      then [Flt ''bedrooms'' (Inr (\<lambda>r. cell_ge (r ''bedrooms'') (of_int (min_bedrooms p))))]
      else [])
   @ str_filter (city p)
       (\<lambda>c. Flt ''city'' (Inr (\<lambda>r. map_option lower (str_of (r ''city'')) = Some (lower (strip c)))))
   @ str_filter (state p)
       (\<lambda>s. Flt ''state'' (Inr (\<lambda>r. map_option upper (str_of (r ''state'')) = Some (upper (strip s)))))
   @ str_filter (zip_code p)
       (\<lambda>z. Flt ''zip_code'' (Inr (\<lambda>r. py_str L (r ''zip_code'') = strip z)))
   @ flag_filter (section8 p) ''section8_accepted''
   @ flag_filter (hud_approved p) ''hud_approved''
   @ flag_filter (low_income_only p) ''low_income_eligible''
   @ flag_filter (needs_transit p) ''nearby_transit''
   @ flag_filter (pets_allowed p) ''pets_allowed''
   @ (if accessibility p
      then [Flt ''accessibility_features''
              (Inr (\<lambda>r. notna (r ''accessibility_features'')
                      \<and> map_option strip (str_of (r ''accessibility_features'')) \<noteq> Some ''None''
                      \<and> map_option strip (str_of (r ''accessibility_features'')) \<noteq> Some ''''))]
      else [])
   @ (case ami_percent p of
        None \<Rightarrow> []
      | Some a \<Rightarrow> [Flt ''income_limit_percent_ami''
                     (Inr (\<lambda>r. cell_le (r ''income_limit_percent_ami'') (of_int a)))])
   @ str_filter (language p)
       (\<lambda>l. let normalised = alias_get (lower l) l
            in Flt ''languages_spoken''
                 (case re_search_icase L normalised of
                    None \<Rightarrow> Inl ReError
                  | Some found \<Rightarrow>
                      Inr (\<lambda>r. case str_of (r ''languages_spoken'') of
                                 Some s \<Rightarrow> found s | None \<Rightarrow> False)))"

text \<open>\<^verbatim>\<open>DataFrame.empty\<close>: an axis of length 0.\<close>

definition empty_frame :: "frame \<Rightarrow> bool" where
  "empty_frame df = (rows df = [] \<or> columns df = [])"

text \<open>
  \<^verbatim>\<open>results.apply(self._score_listing, axis=1)\<close> and the assignment of the scores to the
  column \<^verbatim>\<open>score\<close>: the scoring function is called on every row, in order, and an error
  it raises ends the call.
\<close>

fun score_rows :: "library \<Rightarrow> string list \<Rightarrow> (nat \<times> row) list \<Rightarrow> error + (nat \<times> row) list" where
  "score_rows L cols [] = Inr []"
| "score_rows L cols (x # xs) =
     (case score_listing L cols (snd x) of
        Inl e \<Rightarrow> Inl e
      | Inr s \<Rightarrow>
          (case score_rows L cols xs of
             Inl e \<Rightarrow> Inl e
           | Inr ys \<Rightarrow> Inr ((fst x, (snd x)(''score'' := PFloat s)) # ys)))"

definition add_column :: "string \<Rightarrow> string list \<Rightarrow> string list" where
  "add_column c cols = (if c \<in> set cols then cols else cols @ [c])"

text \<open>\<^verbatim>\<open>DataFrame.head(n)\<close>: the first \<open>n\<close> rows, or all but the last \<open>-n\<close> for a negative \<open>n\<close>.\<close>

definition head :: "int \<Rightarrow> 'a list \<Rightarrow> 'a list" where
  "head n xs = (if 0 \<le> n then take (nat n) xs else take (length xs - nat (- n)) xs)"

text \<open>
  What a call of \<^verbatim>\<open>search\<close> returns, and the index labels of the rows on which it called
  the scoring function.
\<close>

record search_out =
  result :: frame
  scored :: "nat list"

text \<open>\<^verbatim>\<open>HousingAI.search\<close> on the dataset \<open>df\<close> (\<^verbatim>\<open>self.df\<close>).\<close>

definition search :: "library \<Rightarrow> frame \<Rightarrow> search_args \<Rightarrow> error + search_out" where
  "search L df p =
     (case run_filters (filters L p) df of
        Inl e \<Rightarrow> Inl e
      | Inr results \<Rightarrow>
          if empty_frame results then Inr \<lparr>result = results, scored = []\<rparr>
          else
            (case score_rows L (columns results) (rows results) of
               Inl e \<Rightarrow> Inl e
             | Inr rs \<Rightarrow>
                 Inr \<lparr>result = \<lparr>columns = add_column ''score'' (columns results),
                                rows = head (top_n p) (sort_values L rs)\<rparr>,
                      scored = map fst (rows results)\<rparr>))"

text \<open>
  What pandas documents of \<^verbatim>\<open>sort_values("score", ascending=False)\<close> with its default
  \<^verbatim>\<open>kind="quicksort"\<close>: the rows come back rearranged, in descending order of the score. The
  order of rows with equal scores is left to the sorting algorithm, which is not a stable one.
\<close>

definition score_of :: "nat \<times> row \<Rightarrow> rat" where
  "score_of x = (case snd x ''score'' of PFloat q \<Rightarrow> q | _ \<Rightarrow> 0)"

definition sort_values_contract :: "((nat \<times> row) list \<Rightarrow> (nat \<times> row) list) \<Rightarrow> bool" where
  "sort_values_contract srt =
     (\<forall>xs. mset (srt xs) = mset xs \<and> sorted_wrt (\<lambda>a b. score_of b \<le> score_of a) (srt xs))"

section \<open>Query parsing\<close>

text \<open>
  \<^verbatim>\<open>\b\<close> of the \<^verbatim>\<open>re\<close> module, at a position given by the character before it (none at the
  start) and the text after it: exactly one side is a word character.
\<close>

definition word_boundary :: "char option \<Rightarrow> string \<Rightarrow> bool" where
  "word_boundary prev rest =
     ((case prev of None \<Rightarrow> False | Some c \<Rightarrow> isword c)
      \<noteq> (case rest of [] \<Rightarrow> False | c # cs \<Rightarrow> isword c))"

text \<open>
  \<^verbatim>\<open>\b(\d{3,4})\b\<close> at a position: the greedy \<^verbatim>\<open>\d{3,4}\<close> takes four digits when a word
  boundary follows them and three digits otherwise. The value is the text of group 1.
\<close>

definition digits_group :: "char option \<Rightarrow> string \<Rightarrow> string option" where
  "digits_group prev s =
     (if \<not> word_boundary prev s then None
      else if 4 \<le> length s \<and> list_all isdigit (take 4 s)
              \<and> word_boundary (Some (s ! 3)) (drop 4 s) then Some (take 4 s)
      else if 3 \<le> length s \<and> list_all isdigit (take 3 s)
              \<and> word_boundary (Some (s ! 2)) (drop 3 s) then Some (take 3 s)
      else None)"

text \<open>
  The rent pattern \<^verbatim>\<open>\$?\b(\d{3,4})\b.*?(rent|month|budget|afford|per month)?\<close> at a
  position: with the optional \<^verbatim>\<open>$\<close> taken first, then without it. What follows the second
  \<^verbatim>\<open>\b\<close> matches the empty text, so the match succeeds as soon as the digits are found.
\<close>

definition rent_match_here :: "char option \<Rightarrow> string \<Rightarrow> string option" where
  "rent_match_here prev s =
     (case (case s of
              [] \<Rightarrow> None
            | c # cs \<Rightarrow> if c = CHR ''$'' then digits_group (Some c) cs else None) of
        Some g \<Rightarrow> Some g
      | None \<Rightarrow> digits_group prev s)"

text \<open>\<^verbatim>\<open>re.search\<close>: the first position, from the left, where the pattern matches.\<close>

fun rent_search :: "char option \<Rightarrow> string \<Rightarrow> string option" where
  "rent_search prev [] = rent_match_here prev []"
| "rent_search prev (c # cs) =
     (case rent_match_here prev (c # cs) of
        Some g \<Rightarrow> Some g
      | None \<Rightarrow> rent_search (Some c) cs)"

text \<open>
  The bedroom pattern \<^verbatim>\<open>(\d)\s*(?:bed(?:room)?s?|br\b)\<close> at a position: a digit, all the
  whitespace after it, then \<^verbatim>\<open>bed\<close>, or \<^verbatim>\<open>br\<close> with a word boundary after it.
\<close>

definition bed_match_here :: "string \<Rightarrow> string option" where
  "bed_match_here s =
     (case s of
        [] \<Rightarrow> None
      | d # rest \<Rightarrow>
          if isdigit d then
            (let r = dropWhile isspace rest
             in if prefix ''bed'' r
                   \<or> (prefix ''br'' r \<and> word_boundary (Some CHR ''r'') (drop 2 r))
                then Some [d] else None)
          else None)"

fun bed_search :: "string \<Rightarrow> string option" where
  "bed_search [] = None"
| "bed_search (c # cs) =
     (case bed_match_here (c # cs) of Some g \<Rightarrow> Some g | None \<Rightarrow> bed_search cs)"

text \<open>
  \<^verbatim>\<open>int(text)\<close>. The model reads a non-empty text of decimal digits and raises
  \<^verbatim>\<open>ValueError\<close> on every other text (Python reads a few more forms, such as a sign).
\<close>

definition py_int :: "string \<Rightarrow> error + int" where
  "py_int s =
     (if s \<noteq> [] \<and> list_all isdigit s
      then Inr (int (foldl (\<lambda>n c. 10 * n + (ord c - 48)) 0 s))
      else Inl ValueError)"

text \<open>\<^verbatim>\<open>int(m.group(1))\<close> when the pattern matched.\<close>

definition int_group :: "string option \<Rightarrow> error + pyval option" where
  "int_group m =
     (case m of
        None \<Rightarrow> Inr None
      | Some g \<Rightarrow> (case py_int g of Inl e \<Rightarrow> Inl e | Inr n \<Rightarrow> Inr (Some (PInt n))))"

text \<open>\<^verbatim>\<open>str.title()\<close>: a letter after a letter in lower case, any other letter in upper case.\<close>

fun title_from :: "bool \<Rightarrow> string \<Rightarrow> string" where
  "title_from after_letter [] = []"
| "title_from after_letter (c # cs) =
     (if isalpha c then (if after_letter then lower_char c else upper_char c) else c)
     # title_from (isalpha c) cs"

definition title :: "string \<Rightarrow> string" where
  "title s = title_from False s"

definition CITIES :: "string list" where
  "CITIES = [''atlanta'', ''decatur'', ''norcross'', ''chamblee'', ''sandy springs'',
             ''college park'', ''brookhaven'', ''jonesboro'']"

text \<open>\<^verbatim>\<open>any(w in q for w in words)\<close>.\<close>

definition any_in :: "string list \<Rightarrow> string \<Rightarrow> bool" where
  "any_in ws q = list_ex (\<lambda>w. py_in w q) ws"

text \<open>
  The dictionary \<^verbatim>\<open>params\<close> is a map; \<^verbatim>\<open>if test: params[key] = value\<close> is \<open>put_if\<close>, and
  \<open>put_opt\<close> stores a value when there is one.
\<close>

type_synonym params = "string \<rightharpoonup> pyval"

definition put_if :: "bool \<Rightarrow> string \<Rightarrow> pyval \<Rightarrow> params \<Rightarrow> params" where
  "put_if test k v m = (if test then m(k \<mapsto> v) else m)"

definition put_opt :: "string \<Rightarrow> pyval option \<Rightarrow> params \<Rightarrow> params" where
  "put_opt k v m = (case v of None \<Rightarrow> m | Some x \<Rightarrow> m(k \<mapsto> x))"

text \<open>The signals of the rules of \<^verbatim>\<open>parse_query\<close>, on the lower-cased query.\<close>

definition city_found :: "string \<Rightarrow> string option" where
  "city_found q = find (\<lambda>city. py_in city q) CITIES"

definition state_found :: "string \<Rightarrow> bool" where
  "state_found q = (py_in '' ga '' q \<or> py_in ''georgia'' q \<or> suffix '' ga'' q)"

definition section8_found :: "string \<Rightarrow> bool" where
  "section8_found q = (py_in ''section 8'' q \<or> py_in ''section8'' q \<or> py_in ''voucher'' q)"

definition low_income_found :: "string \<Rightarrow> bool" where
  "low_income_found q =
     any_in [''low income'', ''low-income'', ''affordable'', ''cheap'', ''subsidized''] q"

definition transit_found :: "string \<Rightarrow> bool" where
  "transit_found q = any_in [''transit'', ''bus'', ''marta'', ''train'', ''public transport''] q"

definition pets_found :: "string \<Rightarrow> bool" where
  "pets_found q = (py_in ''pet'' q \<or> py_in ''dog'' q \<or> py_in ''cat'' q)"

definition accessibility_found :: "string \<Rightarrow> bool" where
  "accessibility_found q =
     any_in [''wheelchair'', ''accessible'', ''accessibility'', ''disability'', ''disabled''] q"

definition language_found :: "string \<Rightarrow> (string \<times> string) option" where
  "language_found q = find (\<lambda>entry. py_in (fst entry) q) LANGUAGE_ALIASES"

text \<open>
  \<^verbatim>\<open>HousingAI.parse_query\<close>. The two calls of \<^verbatim>\<open>int\<close> are where the source can raise; the
  rules then write their keys in the order of the source.
\<close>

definition parse_query :: "string \<Rightarrow> error + params" where
  "parse_query query =
     (let q = lower query in
      case int_group (rent_search None q) of
        Inl e \<Rightarrow> Inl e
      | Inr rent \<Rightarrow>
          (case int_group (bed_search q) of
             Inl e \<Rightarrow> Inl e
           | Inr beds \<Rightarrow>
               Inr (foldl (\<lambda>m rule. rule m) Map.empty
                 [put_opt ''max_rent'' rent,
                  put_opt ''min_bedrooms'' beds,
                  put_opt ''city'' (map_option (\<lambda>city. PStr (title city)) (city_found q)),
                  put_if (state_found q) ''state'' (PStr ''GA''),
                  put_if (section8_found q) ''section8'' (PBool True),
                  put_if (py_in ''hud'' q) ''hud_approved'' (PBool True),
                  put_if (low_income_found q) ''low_income_only'' (PBool True),
                  put_if (transit_found q) ''needs_transit'' (PBool True),
                  put_if (pets_found q) ''pets_allowed'' (PBool True),
                  put_if (accessibility_found q) ''accessibility'' (PBool True),
                  put_opt ''language''
                    (map_option (\<lambda>entry. PStr (snd entry)) (language_found q))])))"

section \<open>Answering a query\<close>

text \<open>
  \<^verbatim>\<open>self.search(**params)\<close> for the dictionary that \<^verbatim>\<open>answer_query\<close> builds: the keys that
  \<^verbatim>\<open>parse_query\<close> writes and \<^verbatim>\<open>top_n\<close>, with the types it writes them; an argument whose
  key is absent takes the default of the signature.
\<close>

definition kwargs :: "params \<Rightarrow> search_args" where
  "kwargs m =
     \<lparr>max_rent = (case m ''max_rent'' of Some (PInt n) \<Rightarrow> Some (of_int n) | _ \<Rightarrow> None),
      min_bedrooms = (case m ''min_bedrooms'' of Some (PInt n) \<Rightarrow> n | _ \<Rightarrow> 0),
      city = (case m ''city'' of Some (PStr s) \<Rightarrow> Some s | _ \<Rightarrow> None),
      state = (case m ''state'' of Some (PStr s) \<Rightarrow> Some s | _ \<Rightarrow> None),
      zip_code = None,
      language = (case m ''language'' of Some (PStr s) \<Rightarrow> Some s | _ \<Rightarrow> None),
      section8 = (m ''section8'' = Some (PBool True)),
      hud_approved = (m ''hud_approved'' = Some (PBool True)),
      low_income_only = (m ''low_income_only'' = Some (PBool True)),
      needs_transit = (m ''needs_transit'' = Some (PBool True)),
      pets_allowed = (m ''pets_allowed'' = Some (PBool True)),
      accessibility = (m ''accessibility'' = Some (PBool True)),
      ami_percent = None,
      top_n = (case m ''top_n'' of Some (PInt n) \<Rightarrow> n | _ \<Rightarrow> 10)\<rparr>"

text \<open>
  The fixed summary of the empty result. Characters outside ASCII are written as the bytes
  of their UTF-8 encoding: here the dash after \<^verbatim>\<open>search\<close>.
\<close>

definition em_dash :: string where
  "em_dash = [CHR 0xE2, CHR 0x80, CHR 0x94]"

definition NO_MATCH_SUMMARY :: string where
  "NO_MATCH_SUMMARY =
     ''I'm sorry, I couldn't find any listings that match your criteria. ''
     @ ''Try broadening your search '' @ em_dash @ '' for example, increase your budget or ''
     @ ''expand to nearby cities.''"

text \<open>
  \<^verbatim>\<open>format(value, ",.0f")\<close>: the number rounded to an integer, its digits grouped by
  thousands; \<^verbatim>\<open>nan\<close> prints as \<^verbatim>\<open>nan\<close>; a string raises \<^verbatim>\<open>ValueError\<close> and \<^verbatim>\<open>None\<close> raises
  \<^verbatim>\<open>TypeError\<close>.
\<close>

definition pad3 :: "nat \<Rightarrow> string" where
  "pad3 n = [chr (48 + n div 100 mod 10), chr (48 + n div 10 mod 10), chr (48 + n mod 10)]"

fun commas :: "nat \<Rightarrow> string" where
  "commas n = (if n < 1000 then str_nat n else commas (n div 1000) @ '','' @ pad3 (n mod 1000))"

declare commas.simps [simp del]

definition format_comma_0f :: "pyval \<Rightarrow> error + string" where
  "format_comma_0f v =
     (case v of
        PNone \<Rightarrow> Inl TypeError
      | PStr s \<Rightarrow> Inl ValueError
      | PNaN \<Rightarrow> Inr ''nan''
      | _ \<Rightarrow>
          (case num_of v of
             None \<Rightarrow> Inl TypeError
           | Some q \<Rightarrow>
               Inr ((if q < 0 then ''-'' else '''') @ commas (nat \<bar>round_half_even q\<bar>))))"

text \<open>\<^verbatim>\<open>int(value)\<close> of a cell: a float is truncated, \<^verbatim>\<open>nan\<close> raises \<^verbatim>\<open>ValueError\<close>.\<close>

fun int_of :: "pyval \<Rightarrow> error + int" where
  "int_of PNone = Inl TypeError"
| "int_of PNaN = Inl ValueError"
| "int_of (PBool b) = Inr (if b then 1 else 0)"
| "int_of (PInt i) = Inr i"
| "int_of (PFloat q) = Inr (trunc q)"
| "int_of (PStr s) = py_int s"

text \<open>
  The line of one result row, an f-string over the cells of the row; each \<^verbatim>\<open>row[key]\<close>
  raises \<^verbatim>\<open>KeyError\<close> on a row without the column, in the order of the text.
\<close>

definition bullet :: string where
  "bullet = [CHR 0xE2, CHR 0x80, CHR 0xA2]"

definition check_mark :: string where
  "check_mark = [CHR 0xE2, CHR 0x9C, CHR 0x93]"

definition cross_mark :: string where
  "cross_mark = [CHR 0xE2, CHR 0x9C, CHR 0x97]"

definition result_line :: "library \<Rightarrow> string list \<Rightarrow> row \<Rightarrow> error + string" where
  "result_line L cols r =
     (case row_item cols r ''address'' of Inl e \<Rightarrow> Inl e | Inr address \<Rightarrow>
      case row_item cols r ''city'' of Inl e \<Rightarrow> Inl e | Inr city_cell \<Rightarrow>
      case row_item cols r ''state'' of Inl e \<Rightarrow> Inl e | Inr state_cell \<Rightarrow>
      case row_item cols r ''monthly_rent'' of Inl e \<Rightarrow> Inl e | Inr rent_cell \<Rightarrow>
      case format_comma_0f rent_cell of Inl e \<Rightarrow> Inl e | Inr rent \<Rightarrow>
      case row_item cols r ''bedrooms'' of Inl e \<Rightarrow> Inl e | Inr bed_cell \<Rightarrow>
      case int_of bed_cell of Inl e \<Rightarrow> Inl e | Inr beds \<Rightarrow>
      case row_item cols r ''section8_accepted'' of Inl e \<Rightarrow> Inl e | Inr s8 \<Rightarrow>
      case row_item cols r ''agent_name'' of Inl e \<Rightarrow> Inl e | Inr agent_name \<Rightarrow>
      case row_item cols r ''agent_phone'' of Inl e \<Rightarrow> Inl e | Inr agent_phone \<Rightarrow>
        Inr (bullet @ '' '' @ py_str L address @ '', '' @ py_str L city_cell @ '', ''
             @ py_str L state_cell @ '' '' @ em_dash @ '' $'' @ rent @ ''/mo | ''
             @ str_int beds @ '' bed | Section 8: ''
             @ (if truthy s8 then check_mark else cross_mark)
             @ '' | Agent: '' @ py_str L agent_name @ '' ('' @ py_str L agent_phone @ '')''))"

fun result_lines :: "library \<Rightarrow> string list \<Rightarrow> (nat \<times> row) list \<Rightarrow> error + string list" where
  "result_lines L cols [] = Inr []"
| "result_lines L cols (x # xs) =
     (case result_line L cols (snd x) of
        Inl e \<Rightarrow> Inl e
      | Inr l \<Rightarrow> (case result_lines L cols xs of Inl e \<Rightarrow> Inl e | Inr ls \<Rightarrow> Inr (l # ls)))"

text \<open>\<^verbatim>\<open>sep.join(lines)\<close>.\<close>

fun join :: "string \<Rightarrow> string list \<Rightarrow> string" where
  "join sep [] = []"
| "join sep [l] = l"
| "join sep (l # ls) = l @ sep @ join sep ls"

definition newline :: string where
  "newline = [CHR 0x0A]"

text \<open>The dictionary that \<^verbatim>\<open>answer_query\<close> returns.\<close>

record answer =
  params_of :: params
  results :: frame
  summary :: string

text \<open>\<^verbatim>\<open>HousingAI.answer_query\<close> on the dataset \<open>df\<close>.\<close>

definition answer_query :: "library \<Rightarrow> frame \<Rightarrow> string \<Rightarrow> int \<Rightarrow> error + answer" where
  "answer_query L df query n =
     (case parse_query query of
        Inl e \<Rightarrow> Inl e
      | Inr parsed \<Rightarrow>
          let params = parsed(''top_n'' \<mapsto> PInt n) in
          case search L df (kwargs params) of
            Inl e \<Rightarrow> Inl e
          | Inr out \<Rightarrow>
              if empty_frame (result out)
              then Inr \<lparr>params_of = params, results = result out, summary = NO_MATCH_SUMMARY\<rparr>
              else
                (case result_lines L (columns (result out)) (rows (result out)) of
                   Inl e \<Rightarrow> Inl e
                 | Inr ls \<Rightarrow>
                     Inr \<lparr>params_of = params, results = result out,
                          summary = join newline
                            ((''I found '' @ str_nat (length (rows (result out)))
                              @ '' listing(s) that match your needs:'' @ newline) # ls)\<rparr>))"


text \<open>The rows that one filter, applied alone to the frame, lets through.\<close>

definition accepted :: "flt \<Rightarrow> frame \<Rightarrow> (nat \<times> row) set" where
  "accepted f df = (case apply_filter f df of Inl e \<Rightarrow> {} | Inr d \<Rightarrow> set (rows d))"

section \<open>Example data\<close>

text \<open>
  A row from its cells; a cell that is not listed is missing.
\<close>

definition mk_row :: "(string \<times> pyval) list \<Rightarrow> row" where
  "mk_row cells = (\<lambda>k. case map_of cells k of Some v \<Rightarrow> v | None \<Rightarrow> PNaN)"

text \<open>
  Two sorting functions that both return the rows in descending order of the score: the
  first keeps rows of equal score in their order, the second reverses them.
\<close>

definition stable_sort_values :: "(nat \<times> row) list \<Rightarrow> (nat \<times> row) list" where
  "stable_sort_values xs = sort_key (\<lambda>x. - score_of x) xs"


text \<open>
  A library for the examples: it reads no string as a number, prints a float by its integer
  part, searches a pattern as a literal text without regard to case, and sorts stably.
\<close>

definition example_library :: library where
  "example_library =
     \<lparr>to_numeric_str = (\<lambda>s. None), float_of_str = (\<lambda>s. None),
      float_str = (\<lambda>q. str_int \<lfloor>q\<rfloor> @ ''.0''),
      re_search_icase = (\<lambda>pat. Some (\<lambda>s. py_in (lower pat) (lower s))),
      sort_values = stable_sort_values\<rparr>"


definition example_columns :: "string list" where
  "example_columns = [''address'', ''city'', ''monthly_rent'', ''bedrooms'',
                      ''languages_spoken'', ''section8_accepted'']"

definition listing0 :: row where
  "listing0 = mk_row [(''address'', PStr ''12 Oak St''), (''city'', PStr ''Atlanta''),
     (''monthly_rent'', PInt 700), (''bedrooms'', PInt 2),
     (''languages_spoken'', PStr ''English, Spanish''), (''section8_accepted'', PBool True)]"

definition listing1 :: row where
  "listing1 = mk_row [(''address'', PStr ''4 Elm Ave''), (''city'', PStr ''Decatur''),
     (''monthly_rent'', PInt 950), (''bedrooms'', PInt 1),
     (''languages_spoken'', PStr ''English, Chinese''), (''section8_accepted'', PBool False)]"

definition listing2 :: row where
  "listing2 = mk_row [(''address'', PStr ''9 Pine Rd''), (''city'', PStr ''Atlanta''),
     (''monthly_rent'', PNaN), (''bedrooms'', PInt 3),
     (''languages_spoken'', PStr ''Chinese''), (''section8_accepted'', PBool True)]"

definition listing3 :: row where
  "listing3 = mk_row [(''address'', PStr ''7 Ash Ct''), (''city'', PStr ''Norcross''),
     (''monthly_rent'', PInt 700), (''bedrooms'', PInt 2),
     (''languages_spoken'', PStr ''Korean''), (''section8_accepted'', PBool True)]"

definition example_df :: frame where
  "example_df = \<lparr>columns = example_columns,
                  rows = [(0, listing0), (1, listing1), (2, listing2), (3, listing3)]\<rparr>"

text \<open>A search with two filters: a rent of at most 800 and Section 8 accepted.\<close>

definition args_rent_section8 :: search_args where
  "args_rent_section8 = default_args\<lparr>max_rent := Some 800, section8 := True\<rparr>"





section \<open>Properties of the boolean coercion\<close>

lemma ord_chr: "n < 256 \<Longrightarrow> ord (chr n) = n"
  by (simp add: ord_def chr_def)


lemma lower_char_isspace: "isspace (lower_char c) \<Longrightarrow> isspace c"
  by (cases "isupper c") (auto simp: lower_char_def isspace_def isupper_def ord_chr)









section \<open>Properties of dataset loading\<close>






section \<open>Properties of the score\<close>





lemma bonuses_nonneg: "0 \<le> bonuses L cols r"
  unfolding bonuses_def Let_def by (intro add_nonneg_nonneg) simp_all






section \<open>Properties of filtering\<close>

lemma apply_filter_Inr_iff:
  "apply_filter f df = Inr res \<longleftrightarrow>
     runnable f df \<and> res = df\<lparr>rows := filter (accepts f) (rows df)\<rparr>"
proof (cases "mask f")
  case (Inl e)
  then show ?thesis by (simp add: apply_filter_def runnable_def)
next
  case (Inr keep)
  then have "accepts f = (\<lambda>x. keep (snd x))" by (simp add: accepts_def fun_eq_iff)
  then show ?thesis using Inr by (auto simp: apply_filter_def runnable_def)
qed

lemma run_filters_Inr_iff:
  "run_filters fs df = Inr res \<longleftrightarrow>
     (\<forall>f \<in> set fs. runnable f df)
     \<and> res = df\<lparr>rows := filter (\<lambda>x. \<forall>f \<in> set fs. accepts f x) (rows df)\<rparr>"
proof (induction fs arbitrary: df)
  case Nil
  then show ?case by auto
next
  case (Cons f fs)
  show ?case
  proof (cases "apply_filter f df")
    case (Inl e)
    then have "\<not> runnable f df" using apply_filter_Inr_iff [of f df] by auto
    then show ?thesis using Inl by simp
  next
    case (Inr df')
    then have r: "runnable f df" and d: "df' = df\<lparr>rows := filter (accepts f) (rows df)\<rparr>"
      using apply_filter_Inr_iff [of f df df'] by auto
    have c: "runnable g df' = runnable g df" for g by (simp add: d runnable_def)
    have "filter (\<lambda>x. \<forall>g\<in>set fs. accepts g x) (filter (accepts f) (rows df))
        = filter (\<lambda>x. \<forall>g\<in>set (f # fs). accepts g x) (rows df)"
      by (auto intro: filter_cong)
    then show ?thesis using Inr r c Cons.IH [of df'] by (simp add: d)
  qed
qed

lemma accepted_runnable:
  assumes "runnable f df"
  shows "accepted f df = {x \<in> set (rows df). accepts f x}"
proof -
  have "apply_filter f df = Inr (df\<lparr>rows := filter (accepts f) (rows df)\<rparr>)"
    using assms apply_filter_Inr_iff by blast
  then show ?thesis by (simp add: accepted_def)
qed

text \<open>
  C6. The filters compose by logical and, in any order: when the filters of a search run
  on the dataset without error, any rearrangement of them gives the same frame, whose rows
  are the rows of the dataset that every filter accepts, in the order of the dataset; as a
  set, they are the intersection of what each filter, applied alone, lets through.
\<close>

theorem filters_compose_by_and:
  assumes "run_filters (filters L p) df = Inr res"
    and "mset fs = mset (filters L p)"
  shows "run_filters fs df = Inr res
    \<and> rows res = filter (\<lambda>x. \<forall>f \<in> set (filters L p). accepts f x) (rows df)
    \<and> set (rows res) = set (rows df) \<inter> (\<Inter>f \<in> set (filters L p). accepted f df)"
proof -
  have s: "set fs = set (filters L p)" using assms(2) by (rule mset_eq_setD)
  have run: "\<forall>f \<in> set (filters L p). runnable f df"
    and res: "res = df\<lparr>rows := filter (\<lambda>x. \<forall>f \<in> set (filters L p). accepts f x) (rows df)\<rparr>"
    using assms(1) run_filters_Inr_iff [of "filters L p" df res] by auto
  have a: "run_filters fs df = Inr res"
    using run res s run_filters_Inr_iff [of fs df res] by simp
  have b: "rows res = filter (\<lambda>x. \<forall>f \<in> set (filters L p). accepts f x) (rows df)"
    by (simp add: res)
  have "set (rows res) = set (rows df) \<inter> (\<Inter>f \<in> set (filters L p). accepted f df)"
    unfolding b using run by (auto simp: accepted_runnable)
  then show ?thesis using a b by simp
qed

theorem filters_compose_by_and_witness:
  "\<not> isl (run_filters (filters example_library args_rent_section8) example_df)
   \<and> length (filters example_library args_rent_section8) = 2
   \<and> run_filters (rev (filters example_library args_rent_section8)) example_df
       = run_filters (filters example_library args_rent_section8) example_df
   \<and> map fst (rows (projr (run_filters (filters example_library args_rent_section8)
         example_df))) = [0, 3]"
proof -
  have a: "\<not> isl (run_filters (filters example_library args_rent_section8) example_df)"
    by code_simp
  have b: "length (filters example_library args_rent_section8) = 2"
    by code_simp
  have c: "map fst (rows (projr (run_filters (filters example_library args_rent_section8)
         example_df))) = [0, 3]"
    by code_simp
  from a obtain res
    where r: "run_filters (filters example_library args_rent_section8) example_df = Inr res"
    by (cases "run_filters (filters example_library args_rent_section8) example_df") auto
  have m: "mset (rev (filters example_library args_rent_section8))
      = mset (filters example_library args_rent_section8)"
    by simp
  have "run_filters (rev (filters example_library args_rent_section8)) example_df = Inr res"
    using filters_compose_by_and [OF r m] by simp
  then show ?thesis using a b c r by simp
qed

section \<open>Properties of search\<close>

lemma score_rows_Inr:
  "score_rows L cols xs = Inr ys \<Longrightarrow>
     list_all2 (\<lambda>x y. fst y = fst x
        \<and> (\<exists>s. score_listing L cols (snd x) = Inr s \<and> snd y = (snd x)(''score'' := PFloat s)))
       xs ys"
proof (induction xs arbitrary: ys)
  case Nil
  then show ?case by simp
next
  case (Cons x xs)
  then show ?case by (auto split: sum.splits)
qed

lemma list_all2_origin:
  "list_all2 P xs ys \<Longrightarrow> y \<in> set ys \<Longrightarrow> \<exists>x \<in> set xs. P x y"
  by (induction rule: list_all2_induct) auto

lemma set_head: "set (head n xs) \<subseteq> set xs"
  by (auto simp: head_def dest: in_set_takeD)


lemma contract_set: "sort_values_contract srt \<Longrightarrow> set (srt xs) = set xs"
  unfolding sort_values_contract_def by (metis mset_eq_setD)


lemma search_Inr_cases:
  assumes "search L df p = Inr out"
  obtains (no_match) res where "run_filters (filters L p) df = Inr res" and "empty_frame res"
      and "out = \<lparr>result = res, scored = []\<rparr>"
  | (ranked) res rs where "run_filters (filters L p) df = Inr res" and "\<not> empty_frame res"
      and "score_rows L (columns res) (rows res) = Inr rs"
      and "out = \<lparr>result = \<lparr>columns = add_column ''score'' (columns res),
                              rows = head (top_n p) (sort_values L rs)\<rparr>,
                    scored = map fst (rows res)\<rparr>"
  using assms unfolding search_def by (auto split: sum.splits if_splits)

lemma search_result_rows:
  assumes "search L df p = Inr out" and "sort_values_contract (sort_values L)"
    and "y \<in> set (rows (result out))"
  shows "\<exists>x \<in> set (rows df). fst y = fst x \<and> (\<forall>f \<in> set (filters L p). accepts f x)
      \<and> (snd y = snd x \<or> (\<exists>s. score_listing L (columns df) (snd x) = Inr s
            \<and> snd y = (snd x)(''score'' := PFloat s)))"
  using assms(1)
proof (cases rule: search_Inr_cases)
  case (no_match res)
  then have "rows res = filter (\<lambda>x. \<forall>f \<in> set (filters L p). accepts f x) (rows df)"
    using run_filters_Inr_iff [of "filters L p" df res] by simp
  then show ?thesis using assms(3) no_match(3) by auto
next
  case (ranked res rs)
  have res: "rows res = filter (\<lambda>x. \<forall>f \<in> set (filters L p). accepts f x) (rows df)"
    and cols: "columns res = columns df"
    using ranked(1) run_filters_Inr_iff [of "filters L p" df res] by simp_all
  have "y \<in> set rs"
    using assms(2,3) ranked(4) set_head [of "top_n p" "sort_values L rs"]
    by (auto simp: contract_set)
  then obtain x where "x \<in> set (rows res)" and "fst y = fst x"
    and "\<exists>s. score_listing L (columns res) (snd x) = Inr s \<and> snd y = (snd x)(''score'' := PFloat s)"
    using list_all2_origin [OF score_rows_Inr [OF ranked(3)]] by blast
  then show ?thesis using res cols by auto
qed


text \<open>
  C1. With \<^verbatim>\<open>max_rent = R\<close>, every row that \<^verbatim>\<open>search\<close> returns has a rent that is a number
  at most \<open>R\<close>, and it is the rent of the dataset row with the same label; a dataset row
  whose rent is missing is not among the rows returned. (The rows of a dataset read by
  \<^verbatim>\<open>pd.read_csv\<close> have distinct labels; the sorting function rearranges its rows.)
\<close>

theorem search_max_rent:
  assumes "search L df p = Inr out" and "max_rent p = Some R"
    and "sort_values_contract (sort_values L)" and "distinct (map fst (rows df))"
  shows "(\<forall>y \<in> set (rows (result out)).
            (\<exists>q. num_of (snd y ''monthly_rent'') = Some q \<and> q \<le> R)
          \<and> (\<exists>x \<in> set (rows df). fst y = fst x
                \<and> snd y ''monthly_rent'' = snd x ''monthly_rent''))
       \<and> (\<forall>x \<in> set (rows df). num_of (snd x ''monthly_rent'') = None
             \<longrightarrow> fst x \<notin> fst ` set (rows (result out)))"
proof -
  let ?f = "Flt ''monthly_rent'' (Inr (\<lambda>r. cell_le (r ''monthly_rent'') R))"
  have mem: "?f \<in> set (filters L p)" using assms(2) by (simp add: filters_def)
  have origin: "\<exists>x \<in> set (rows df). fst y = fst x
      \<and> snd y ''monthly_rent'' = snd x ''monthly_rent''
      \<and> cell_le (snd x ''monthly_rent'') R"
    if "y \<in> set (rows (result out))" for y
  proof -
    from search_result_rows [OF assms(1,3) that] obtain x where x: "x \<in> set (rows df)"
      and k: "fst y = fst x" and acc: "\<forall>f \<in> set (filters L p). accepts f x"
      and cell: "snd y = snd x \<or> (\<exists>s. snd y = (snd x)(''score'' := PFloat s))"
      by blast
    have "accepts ?f x" using acc mem by blast
    then have "cell_le (snd x ''monthly_rent'') R" by (simp add: accepts_def)
    moreover have "snd y ''monthly_rent'' = snd x ''monthly_rent''" using cell by auto
    ultimately show ?thesis using x k by blast
  qed
  have a: "(\<exists>q. num_of (snd y ''monthly_rent'') = Some q \<and> q \<le> R)
          \<and> (\<exists>x \<in> set (rows df). fst y = fst x
                \<and> snd y ''monthly_rent'' = snd x ''monthly_rent'')"
    if "y \<in> set (rows (result out))" for y
    using origin [OF that] by (auto simp: cell_le_def split: option.splits)
  have b: "fst x \<notin> fst ` set (rows (result out))"
    if x: "x \<in> set (rows df)" and none: "num_of (snd x ''monthly_rent'') = None" for x
  proof
    assume "fst x \<in> fst ` set (rows (result out))"
    then obtain y where y: "y \<in> set (rows (result out))" and "fst x = fst y" by auto
    with origin [OF y] obtain x' where x': "x' \<in> set (rows df)" and "fst x' = fst x"
      and le: "cell_le (snd x' ''monthly_rent'') R" by auto
    then have "x' = x"
      using x assms(4) by (metis eq_key_imp_eq_value prod.collapse)
    then show False using le none by (simp add: cell_le_def)
  qed
  show ?thesis using a b by blast
qed

lemma stable_sort_values_contract: "sort_values_contract stable_sort_values"
proof -
  have "sorted_wrt (\<lambda>a b. score_of b \<le> score_of a) (sort_key (\<lambda>x. - score_of x) xs)" for xs
    using sorted_sort_key [of "\<lambda>x. - score_of x" xs] by (simp add: sorted_map)
  then show ?thesis by (simp add: sort_values_contract_def stable_sort_values_def)
qed


theorem search_max_rent_witness:
  "\<not> isl (search example_library example_df args_rent_section8)
   \<and> max_rent args_rent_section8 = Some 800
   \<and> map fst (rows (result (projr (search example_library example_df args_rent_section8))))
       = [0, 3]
   \<and> num_of (listing2 ''monthly_rent'') = None
   \<and> 2 \<notin> fst ` set (rows (result (projr (search example_library example_df
         args_rent_section8))))"
proof -
  have a: "\<not> isl (search example_library example_df args_rent_section8)"
    by code_simp
  then obtain out where out: "search example_library example_df args_rent_section8 = Inr out"
    by (cases "search example_library example_df args_rent_section8") auto
  have m: "max_rent args_rent_section8 = Some 800"
    by (simp add: args_rent_section8_def default_args_def)
  have c: "sort_values_contract (sort_values example_library)"
    by (simp add: example_library_def stable_sort_values_contract)
  have d: "distinct (map fst (rows example_df))" by (simp add: example_df_def)
  have e: "map fst (rows (result (projr (search example_library example_df
      args_rent_section8)))) = [0, 3]"
    by code_simp
  have n: "num_of (listing2 ''monthly_rent'') = None" by code_simp
  have x: "(2, listing2) \<in> set (rows example_df)" by (simp add: example_df_def)
  have "fst (2 :: nat, listing2) \<notin> fst ` set (rows (result out))"
    using conjunct2 [OF search_max_rent [OF out m c d], rule_format, OF x] n by simp
  then have "2 \<notin> fst ` set (rows (result out))" by simp
  then show ?thesis using a m e n out by simp
qed




lemma alias_mandarin_chinese:
  "alias_get (lower ''mandarin'') ''mandarin'' = ''Chinese''"
  "alias_get (lower ''Chinese'') ''Chinese'' = ''Chinese''"
  by code_simp+

text \<open>
  C4. A search with \<^verbatim>\<open>language="mandarin"\<close> returns what the search with
  \<^verbatim>\<open>language="Chinese"\<close> and the same other arguments returns (the same rows in the same
  order, or the same error): both names are looked up in lower case in the alias table and
  both give \<^verbatim>\<open>"Chinese"\<close>, so the two searches apply the same filters.
\<close>

theorem search_mandarin_is_chinese:
  "search L df (p\<lparr>language := Some ''mandarin''\<rparr>) = search L df (p\<lparr>language := Some ''Chinese''\<rparr>)"
proof -
  have "filters L (p\<lparr>language := Some ''mandarin''\<rparr>) = filters L (p\<lparr>language := Some ''Chinese''\<rparr>)"
    by (simp add: filters_def str_filter_def alias_mandarin_chinese Let_def)
  moreover have "top_n (p\<lparr>language := Some ''mandarin''\<rparr>) = top_n (p\<lparr>language := Some ''Chinese''\<rparr>)"
    by simp
  ultimately show ?thesis unfolding search_def by (simp only:)
qed

theorem search_mandarin_is_chinese_witness:
  "map fst (rows (result (projr (search example_library example_df
      (default_args\<lparr>language := Some ''mandarin''\<rparr>))))) = [2, 1]
   \<and> map fst (rows (result (projr (search example_library example_df
      (default_args\<lparr>language := Some ''Chinese''\<rparr>))))) = [2, 1]"
proof -
  have "map fst (rows (result (projr (search example_library example_df
      (default_args\<lparr>language := Some ''Chinese''\<rparr>))))) = [2, 1]"
    by code_simp
  then show ?thesis
    using search_mandarin_is_chinese [of example_library example_df default_args] by simp
qed

section \<open>Properties of query parsing\<close>

lemma digits_group_digits:
  "digits_group prev s = Some g \<Longrightarrow> g \<noteq> [] \<and> list_all isdigit g"
  by (auto simp: digits_group_def split: if_splits)

lemma rent_match_here_digits:
  "rent_match_here prev s = Some g \<Longrightarrow> g \<noteq> [] \<and> list_all isdigit g"
  unfolding rent_match_here_def
  by (auto split: option.splits list.splits if_splits dest: digits_group_digits)

lemma rent_search_digits:
  "rent_search prev s = Some g \<Longrightarrow> g \<noteq> [] \<and> list_all isdigit g"
proof (induction s arbitrary: prev)
  case Nil
  then show ?case using rent_match_here_digits by simp
next
  case (Cons c cs)
  then show ?case using rent_match_here_digits by (auto split: option.splits)
qed

lemma bed_match_here_digits:
  "bed_match_here s = Some g \<Longrightarrow> g \<noteq> [] \<and> list_all isdigit g"
  by (auto simp: bed_match_here_def Let_def split: list.splits if_splits)

lemma bed_search_digits:
  "bed_search s = Some g \<Longrightarrow> g \<noteq> [] \<and> list_all isdigit g"
  by (induction s) (auto split: option.splits dest: bed_match_here_digits)

lemma int_group_digits:
  assumes "\<forall>g. m = Some g \<longrightarrow> g \<noteq> [] \<and> list_all isdigit g"
  shows "\<exists>v. int_group m = Inr v \<and> (m = None \<longrightarrow> v = None)"
  using assms by (cases m) (auto simp: int_group_def py_int_def)

lemma put_if_apply: "put_if test k v m k' = (if test \<and> k' = k then Some v else m k')"
  by (simp add: put_if_def)

lemma put_opt_apply:
  "put_opt k v m k' = (if k' = k then (case v of None \<Rightarrow> m k' | Some x \<Rightarrow> Some x) else m k')"
  by (simp add: put_opt_def split: option.splits)

text \<open>
  C7. \<^verbatim>\<open>parse_query\<close> returns a parameter mapping for every query and raises no error:
  the text that \<^verbatim>\<open>int\<close> is given is a group of digits. A key whose rule finds no signal
  in the lower-cased query is absent from the mapping.
\<close>

theorem parse_query_total:
  "\<exists>params. parse_query query = Inr params
     \<and> (rent_search None (lower query) = None \<longrightarrow> params ''max_rent'' = None)
     \<and> (bed_search (lower query) = None \<longrightarrow> params ''min_bedrooms'' = None)
     \<and> (city_found (lower query) = None \<longrightarrow> params ''city'' = None)
     \<and> (\<not> state_found (lower query) \<longrightarrow> params ''state'' = None)
     \<and> (\<not> section8_found (lower query) \<longrightarrow> params ''section8'' = None)
     \<and> (\<not> py_in ''hud'' (lower query) \<longrightarrow> params ''hud_approved'' = None)
     \<and> (\<not> low_income_found (lower query) \<longrightarrow> params ''low_income_only'' = None)
     \<and> (\<not> transit_found (lower query) \<longrightarrow> params ''needs_transit'' = None)
     \<and> (\<not> pets_found (lower query) \<longrightarrow> params ''pets_allowed'' = None)
     \<and> (\<not> accessibility_found (lower query) \<longrightarrow> params ''accessibility'' = None)
     \<and> (language_found (lower query) = None \<longrightarrow> params ''language'' = None)"
proof -
  have "\<forall>g. rent_search None (lower query) = Some g \<longrightarrow> g \<noteq> [] \<and> list_all isdigit g"
    by (intro allI impI) (rule rent_search_digits)
  then have "\<exists>v. int_group (rent_search None (lower query)) = Inr v
      \<and> (rent_search None (lower query) = None \<longrightarrow> v = None)"
    by (rule int_group_digits)
  then obtain rent where rent: "int_group (rent_search None (lower query)) = Inr rent"
    and rent_none: "rent_search None (lower query) = None \<longrightarrow> rent = None"
    by (elim exE conjE)
  have "\<forall>g. bed_search (lower query) = Some g \<longrightarrow> g \<noteq> [] \<and> list_all isdigit g"
    by (intro allI impI) (rule bed_search_digits)
  then have "\<exists>v. int_group (bed_search (lower query)) = Inr v
      \<and> (bed_search (lower query) = None \<longrightarrow> v = None)"
    by (rule int_group_digits)
  then obtain beds where beds: "int_group (bed_search (lower query)) = Inr beds"
    and beds_none: "bed_search (lower query) = None \<longrightarrow> beds = None"
    by (elim exE conjE)
  let ?q = "lower query"
  define M where "M = foldl (\<lambda>m rule. rule m) Map.empty
    [put_opt ''max_rent'' rent,
     put_opt ''min_bedrooms'' beds,
     put_opt ''city'' (map_option (\<lambda>city. PStr (title city)) (city_found ?q)),
     put_if (state_found ?q) ''state'' (PStr ''GA''),
     put_if (section8_found ?q) ''section8'' (PBool True),
     put_if (py_in ''hud'' ?q) ''hud_approved'' (PBool True),
     put_if (low_income_found ?q) ''low_income_only'' (PBool True),
     put_if (transit_found ?q) ''needs_transit'' (PBool True),
     put_if (pets_found ?q) ''pets_allowed'' (PBool True),
     put_if (accessibility_found ?q) ''accessibility'' (PBool True),
     put_opt ''language'' (map_option (\<lambda>entry. PStr (snd entry)) (language_found ?q))]"
  have pq: "parse_query query = Inr M"
    unfolding parse_query_def Let_def rent beds M_def by (simp only: sum.case)
  note look = M_def put_if_apply put_opt_apply
  have k1: "rent_search None ?q = None \<longrightarrow> M ''max_rent'' = None"
    using rent_none by (simp add: look)
  have k2: "bed_search ?q = None \<longrightarrow> M ''min_bedrooms'' = None"
    using beds_none by (simp add: look)
  have k3: "city_found ?q = None \<longrightarrow> M ''city'' = None" by (simp add: look)
  have k4: "\<not> state_found ?q \<longrightarrow> M ''state'' = None" by (simp add: look)
  have k5: "\<not> section8_found ?q \<longrightarrow> M ''section8'' = None" by (simp add: look)
  have k6: "\<not> py_in ''hud'' ?q \<longrightarrow> M ''hud_approved'' = None" by (simp add: look)
  have k7: "\<not> low_income_found ?q \<longrightarrow> M ''low_income_only'' = None" by (simp add: look)
  have k8: "\<not> transit_found ?q \<longrightarrow> M ''needs_transit'' = None" by (simp add: look)
  have k9: "\<not> pets_found ?q \<longrightarrow> M ''pets_allowed'' = None" by (simp add: look)
  have k10: "\<not> accessibility_found ?q \<longrightarrow> M ''accessibility'' = None" by (simp add: look)
  have k11: "language_found ?q = None \<longrightarrow> M ''language'' = None" by (simp add: look)
  show ?thesis
    by (rule exI [of _ M]) (intro conjI pq k1 k2 k3 k4 k5 k6 k7 k8 k9 k10 k11)
qed

theorem parse_query_total_witness:
  "\<not> isl (parse_query ''section 8 housing'')
   \<and> projr (parse_query ''section 8 housing'') ''max_rent'' = None
   \<and> projr (parse_query ''section 8 housing'') ''language'' = None
   \<and> projr (parse_query ''section 8 housing'') ''section8'' = Some (PBool True)"
proof -
  have a: "rent_search None (lower ''section 8 housing'') = None" by code_simp
  have b: "language_found (lower ''section 8 housing'') = None" by code_simp
  have c: "projr (parse_query ''section 8 housing'') ''section8'' = Some (PBool True)"
    by code_simp
  from parse_query_total [of "''section 8 housing''"] a b
  obtain params where "parse_query ''section 8 housing'' = Inr params"
    and "params ''max_rent'' = None" and "params ''language'' = None"
    by (elim exE conjE) simp
  then show ?thesis using c by simp
qed

end
